theory Spec2Isabelle
  imports Complex_Main "HOL-Library.Multiset"
begin

unbundle bit_operations_syntax

section \<open>Numbers, text and errors\<close>

text \<open>
  The simulator computes with JavaScript numbers and with the complex numbers of mathjs.
  Amplitudes are modelled as \<^typ>\<open>complex\<close> and probabilities as \<^typ>\<open>real\<close>: the
  arithmetic is exact, so the rounding, overflow and underflow of binary64 are outside
  the model. NaN appears where the source produces it from exact inputs, as the value
  \<open>None\<close> of an option type. Qubit
  counts, qubit indices, basis indices and circuit positions are integers (\<^typ>\<open>int\<close>).
  The bitwise operators of the source work on 32-bit integers; on the states the
  constructor returns (at most 5 qubits) every operand they meet lies in \<open>[0, 32)\<close>
  once the range checks of the source have passed, where the operators of \<^typ>\<open>int\<close>
  agree with them.

  A template literal is kept as the list of its pieces, so that no number formatting has
  to be invented: \<open>Txt\<close> is literal text, \<open>Num\<close> an interpolated number and
  \<open>Fixed x d\<close> stands for \<open>x.toFixed(d)\<close>.
\<close>

datatype piece = Txt string | Num real | Fixed real nat

type_synonym text_line = "piece list"

text \<open>
  The source throws plain \<open>Error\<close> objects that differ in their message. Each throw site
  is tagged with the name the specification gives it; \<open>RangeError\<close> and \<open>TypeError\<close>
  are the errors of the JavaScript runtime (an array of fractional length, arithmetic on
  \<open>undefined\<close>), whose message here stands for the engine's own wording.
\<close>

datatype error_kind =
    InvalidQubitCount | DimensionMismatch | ZeroStateError | IndexOutOfRange
  | GateArityMismatch | InvalidQubitPair | TargetCountMismatch | UnsupportedGateArity
  | QubitCountMismatch | RangeError | TypeError

type_synonym error = "error_kind \<times> text_line"

definition and_then :: "error + 'a \<Rightarrow> ('a \<Rightarrow> error + 'b) \<Rightarrow> error + 'b" where
  "and_then r f = (case r of Inl e \<Rightarrow> Inl e | Inr x \<Rightarrow> f x)"

text \<open>Running a loop body over the indices in order; the first throw ends the loop.\<close>

fun collect :: "(error + 'a) list \<Rightarrow> error + 'a list" where
  "collect [] = Inr []"
| "collect (r # rs) =
     (case r of Inl e \<Rightarrow> Inl e
      | Inr x \<Rightarrow> (case collect rs of Inl e \<Rightarrow> Inl e | Inr xs \<Rightarrow> Inr (x # xs)))"

text \<open>\<open>Math.pow(2, n)\<close> for an integer \<open>n\<close>: a fraction when \<open>n\<close> is negative.\<close>

definition pow2 :: "int \<Rightarrow> real" where
  "pow2 n = (if 0 \<le> n then 2 ^ nat n else 1 / 2 ^ nat (- n))"

text \<open>
  \<open>new Array(Math.pow(2, n)).fill(v)\<close>: the array constructor throws a RangeError
  unless its argument is an integer in \<open>[0, 2^32)\<close>.
\<close>

definition new_Array_fill :: "int \<Rightarrow> 'a \<Rightarrow> error + 'a list" where
  "new_Array_fill n v =
     (if n < 0 \<or> 31 < n then Inl (RangeError, [Txt ''Invalid array length''])
      else Inr (replicate (2 ^ nat n) v))"

section \<open>QuantumState\<close>

record QuantumState =
  amplitudes :: "complex list"
  numQubits :: int

text \<open>\<open>Math.pow(Number(abs(amp)), 2)\<close>, the probability of one amplitude.\<close>

definition prob_of :: "complex \<Rightarrow> real" where
  "prob_of amp = (cmod amp) ^ 2"

text \<open>
  \<open>normalize\<close>, in exact arithmetic. In binary64 the sum of squares can overflow to
  \<open>Infinity\<close> (an amplitude of \<open>1e200\<close>): the source then multiplies by
  \<open>1 / Infinity = 0\<close> and returns the all-zero vector without throwing; or it can
  underflow to 0 (an amplitude of \<open>1e-200\<close>): the source then throws for a vector that
  is not zero. Neither is modelled here.
\<close>

definition norm_of :: "complex list \<Rightarrow> real" where
  "norm_of amps = sqrt (foldl (\<lambda>sum amp. sum + prob_of amp) 0 amps)"

definition normalize :: "complex list \<Rightarrow> error + complex list" where
  "normalize amps =
     (let norm = norm_of amps
      in if norm = 0 then Inl (ZeroStateError, [Txt ''Cannot normalize zero state''])
         else Inr (map (\<lambda>amp. amp * complex_of_real (1 / norm)) amps))"

text \<open>
  The constructor. Only the upper bound of the qubit count is checked here. With a
  negative count \<open>Math.pow\<close> gives a fraction, which no array length equals and which
  \<open>new Array\<close> refuses.
\<close>

definition QuantumState_new :: "int \<Rightarrow> complex list option \<Rightarrow> error + QuantumState" where
  "QuantumState_new n initialState =
     (if n > 5 then Inl (InvalidQubitCount, [Txt ''Maximum 5 qubits supported''])
      else
        and_then
          (case initialState of
             Some init \<Rightarrow>
               if real (length init) \<noteq> pow2 n
               then Inl (DimensionMismatch,
                         [Txt ''Initial state must have '', Num (pow2 n),
                          Txt '' amplitudes for '', Num (of_int n), Txt '' qubits''])
               else Inr init
           | None \<Rightarrow>
               and_then (new_Array_fill n 0) (\<lambda>zeros. Inr (zeros[0 := 1])))
          (\<lambda>amps. and_then (normalize amps)
             (\<lambda>normalized. Inr \<lparr>amplitudes = normalized, numQubits = n\<rparr>)))"

definition getAmplitudes :: "QuantumState \<Rightarrow> complex list" where
  "getAmplitudes st = amplitudes st"

definition getNumQubits :: "QuantumState \<Rightarrow> int" where
  "getNumQubits st = numQubits st"

definition out_of_range :: "string \<Rightarrow> int \<Rightarrow> error" where
  "out_of_range what k = (IndexOutOfRange, [Txt what, Num (of_int k), Txt '' out of range''])"

text \<open>
  \<open>setAmplitude\<close> mutates the object and then normalizes; when normalization throws,
  the object keeps the vector it was given. The second component is the object after
  the call.
\<close>

definition setAmplitude ::
  "QuantumState \<Rightarrow> int \<Rightarrow> complex \<Rightarrow> (error + unit) \<times> QuantumState" where
  "setAmplitude st basisState amplitude =
     (if basisState < 0 \<or> basisState \<ge> int (length (amplitudes st))
      then (Inl (out_of_range ''Basis state '' basisState), st)
      else
        let st1 = st\<lparr>amplitudes := (amplitudes st)[nat basisState := amplitude]\<rparr>
        in case normalize (amplitudes st1) of
             Inl e \<Rightarrow> (Inl e, st1)
           | Inr normalized \<Rightarrow> (Inr (), st1\<lparr>amplitudes := normalized\<rparr>))"

definition getAmplitude :: "QuantumState \<Rightarrow> int \<Rightarrow> error + complex" where
  "getAmplitude st basisState =
     (if basisState < 0 \<or> basisState \<ge> int (length (amplitudes st))
      then Inl (out_of_range ''Basis state '' basisState)
      else Inr (amplitudes st ! nat basisState))"

definition getMeasurementProbabilities :: "QuantumState \<Rightarrow> real list" where
  "getMeasurementProbabilities st = map prob_of (amplitudes st)"

definition clone :: "QuantumState \<Rightarrow> error + QuantumState" where
  "clone st = QuantumState_new (numQubits st) (Some (amplitudes st))"

text \<open>
  The invariant of a QuantumState object: between 0 and 5 qubits, one amplitude per basis
  index, and probabilities that sum to 1. These are exactly the values the constructor
  returns (lemma \<open>is_state_iff_constructed\<close> below).
\<close>

definition is_state :: "QuantumState \<Rightarrow> bool" where
  "is_state st \<longleftrightarrow>
     0 \<le> numQubits st \<and> numQubits st \<le> 5 \<and>
     length (amplitudes st) = 2 ^ nat (numQubits st) \<and>
     sum_list (getMeasurementProbabilities st) = 1"

text \<open>
  \<open>(i >> (numQubits - 1 - q)) & 1\<close> and \<open>1 << (numQubits - 1 - q)\<close>: qubit 0 is the most
  significant bit of a basis index.
\<close>

definition qubit_bit :: "int \<Rightarrow> int \<Rightarrow> int \<Rightarrow> int" where
  "qubit_bit n q i = (drop_bit (nat (n - 1 - q)) i) AND 1"

definition bit_mask :: "int \<Rightarrow> int \<Rightarrow> int" where
  "bit_mask n q = push_bit (nat (n - 1 - q)) 1"

definition getQubitMeasurementProbabilities ::
  "QuantumState \<Rightarrow> int \<Rightarrow> error + (real \<times> real)" where
  "getQubitMeasurementProbabilities st qubitIndex =
     (if qubitIndex < 0 \<or> qubitIndex \<ge> numQubits st
      then Inl (out_of_range ''Qubit index '' qubitIndex)
      else Inr (foldl
             (\<lambda>(prob0, prob1) i.
                let probability = prob_of (amplitudes st ! i);
                    qubitValue = qubit_bit (numQubits st) qubitIndex (int i)
                in if qubitValue = 0 then (prob0 + probability, prob1)
                   else (prob0, prob1 + probability))
             (0, 0) [0..<length (amplitudes st)]))"

section \<open>Gate library\<close>

record QuantumGate =
  name :: string
  symbol :: string
  qubits :: int
  matrix :: "complex list list"

definition SQRT2 :: real where
  "SQRT2 = sqrt 2"

definition HadamardGate :: QuantumGate where
  "HadamardGate = \<lparr>name = ''Hadamard'', symbol = ''H'', qubits = 1,
     matrix = [[complex_of_real (1 / SQRT2), complex_of_real (1 / SQRT2)],
               [complex_of_real (1 / SQRT2), complex_of_real (- 1 / SQRT2)]]\<rparr>"

definition PauliXGate :: QuantumGate where
  "PauliXGate = \<lparr>name = ''Pauli-X'', symbol = ''X'', qubits = 1,
     matrix = [[0, 1],
               [1, 0]]\<rparr>"

definition PauliYGate :: QuantumGate where
  "PauliYGate = \<lparr>name = ''Pauli-Y'', symbol = ''Y'', qubits = 1,
     matrix = [[0, Complex 0 (- 1)],
               [Complex 0 1, 0]]\<rparr>"

definition PauliZGate :: QuantumGate where
  "PauliZGate = \<lparr>name = ''Pauli-Z'', symbol = ''Z'', qubits = 1,
     matrix = [[1, 0],
               [0, - 1]]\<rparr>"

definition CNOTGate :: QuantumGate where
  "CNOTGate = \<lparr>name = ''CNOT'', symbol = ''CX'', qubits = 2,
     matrix = [[1, 0, 0, 0],
               [0, 1, 0, 0],
               [0, 0, 0, 1],
               [0, 0, 1, 0]]\<rparr>"

section \<open>Operations\<close>

text \<open>
  \<open>multiply(gate.matrix[r][c], state.getAmplitude(k))\<close>, in the order JavaScript
  evaluates it: a missing row makes the read of its element throw; then \<open>getAmplitude\<close>
  may throw; then \<open>multiply\<close> throws on a missing element.
\<close>

definition type_error :: error where
  "type_error = (TypeError, [Txt ''matrix element is undefined''])"

definition gate_term :: "QuantumGate \<Rightarrow> nat \<Rightarrow> nat \<Rightarrow> QuantumState \<Rightarrow> int \<Rightarrow> error + complex" where
  "gate_term gate r c st k =
     (if r \<ge> length (matrix gate) then Inl type_error
      else and_then (getAmplitude st k)
             (\<lambda>amp. if c \<ge> length (matrix gate ! r) then Inl type_error
                     else Inr (matrix gate ! r ! c * amp)))"

definition single_amplitude ::
  "QuantumState \<Rightarrow> QuantumGate \<Rightarrow> int \<Rightarrow> int \<Rightarrow> int \<Rightarrow> error + complex" where
  "single_amplitude st gate n targetQubit i =
     (let qubitBit = qubit_bit n targetQubit i;
          state0 = i AND NOT (bit_mask n targetQubit);
          state1 = i OR bit_mask n targetQubit
      in if qubitBit = 0
         then and_then (gate_term gate 0 0 st state0)
                (\<lambda>amp0. and_then (gate_term gate 0 1 st state1)
                   (\<lambda>amp1. Inr (amp0 + amp1)))
         else and_then (gate_term gate 1 0 st state0)
                (\<lambda>amp0. and_then (gate_term gate 1 1 st state1)
                   (\<lambda>amp1. Inr (amp0 + amp1))))"

definition applySingleQubitGate ::
  "QuantumState \<Rightarrow> QuantumGate \<Rightarrow> int \<Rightarrow> error + QuantumState" where
  "applySingleQubitGate st gate targetQubit =
     (if qubits gate \<noteq> 1
      then Inl (GateArityMismatch, [Txt ''Gate must be a single-qubit gate''])
      else if targetQubit < 0 \<or> targetQubit \<ge> getNumQubits st
      then Inl (IndexOutOfRange,
                [Txt ''Target qubit '', Num (of_int targetQubit), Txt '' out of range''])
      else
        let n = getNumQubits st
        in and_then (new_Array_fill n (0::complex))
             (\<lambda>zeros. and_then
                (collect (map (\<lambda>i. single_amplitude st gate n targetQubit (int i))
                            [0..<length zeros]))
                (\<lambda>newAmplitudes. QuantumState_new n (Some newAmplitudes))))"

text \<open>
  The four basis indices of the two-qubit routine, with the parentheses that the
  precedence of JavaScript gives the source expressions (\<open>&\<close> binds tighter than
  \<open>|\<close>): the third entry is \<open>i | (C & ~T)\<close>.
\<close>

definition four_states :: "int \<Rightarrow> int \<Rightarrow> int \<Rightarrow> int \<Rightarrow> int list" where
  "four_states n controlQubit targetQubit i =
     (let C = bit_mask n controlQubit; T = bit_mask n targetQubit
      in [(i AND NOT C) AND NOT T,
          (i AND NOT C) OR T,
          i OR (C AND NOT T),
          (i OR C) OR T])"

text \<open>The inner loop over \<open>j\<close>: the terms are added to the running amplitude in order.\<close>

fun add_terms :: "complex \<Rightarrow> (error + complex) list \<Rightarrow> error + complex" where
  "add_terms acc [] = Inr acc"
| "add_terms acc (t # ts) =
     (case t of Inl e \<Rightarrow> Inl e | Inr amplitude \<Rightarrow> add_terms (acc + amplitude) ts)"

definition two_amplitude ::
  "QuantumState \<Rightarrow> QuantumGate \<Rightarrow> int \<Rightarrow> int \<Rightarrow> int \<Rightarrow> int \<Rightarrow> error + complex" where
  "two_amplitude st gate n controlQubit targetQubit i =
     (let controlBit = qubit_bit n controlQubit i;
          targetBit = qubit_bit n targetQubit i;
          twoQubitState = push_bit 1 controlBit OR targetBit;
          states = four_states n controlQubit targetQubit i
      in add_terms 0
           (map (\<lambda>j. gate_term gate (nat twoQubitState) j st (states ! j)) [0..<4]))"

definition applyTwoQubitGate ::
  "QuantumState \<Rightarrow> QuantumGate \<Rightarrow> int \<Rightarrow> int \<Rightarrow> error + QuantumState" where
  "applyTwoQubitGate st gate controlQubit targetQubit =
     (if qubits gate \<noteq> 2
      then Inl (GateArityMismatch, [Txt ''Gate must be a two-qubit gate''])
      else if controlQubit < 0 \<or> controlQubit \<ge> getNumQubits st \<or>
              targetQubit < 0 \<or> targetQubit \<ge> getNumQubits st
      then Inl (IndexOutOfRange, [Txt ''Qubit indices out of range''])
      else if controlQubit = targetQubit
      then Inl (InvalidQubitPair, [Txt ''Control and target qubits must be different''])
      else
        let n = getNumQubits st
        in and_then (new_Array_fill n (0::complex))
             (\<lambda>zeros. and_then
                (collect (map (\<lambda>i. two_amplitude st gate n controlQubit targetQubit (int i))
                            [0..<length zeros]))
                (\<lambda>newAmplitudes. QuantumState_new n (Some newAmplitudes))))"

definition applyGate :: "QuantumState \<Rightarrow> QuantumGate \<Rightarrow> int list \<Rightarrow> error + QuantumState" where
  "applyGate st gate targetQubits =
     (if int (length targetQubits) \<noteq> qubits gate
      then Inl (TargetCountMismatch,
                [Txt ''Gate requires '', Num (of_int (qubits gate)),
                 Txt '' target qubits, but '', Num (real (length targetQubits)),
                 Txt '' provided''])
      else if qubits gate = 1
      then applySingleQubitGate st gate (targetQubits ! 0)
      else if qubits gate = 2
      then applyTwoQubitGate st gate (targetQubits ! 0) (targetQubits ! 1)
      else Inl (UnsupportedGateArity,
                [Txt ''Gates with '', Num (of_int (qubits gate)), Txt '' qubits not supported'']))"

text \<open>A sequence of gate applications, each to the state the one before returned; the
  result lists the state after every step.\<close>

fun gate_sequence :: "QuantumState \<Rightarrow> (QuantumGate \<times> int list) list \<Rightarrow> error + QuantumState list" where
  "gate_sequence st [] = Inr []"
| "gate_sequence st ((g, ts) # rest) =
     and_then (applyGate st g ts)
       (\<lambda>st'. and_then (gate_sequence st' rest) (\<lambda>sts. Inr (st' # sts)))"

text \<open>
  Measurement draws one sample from \<open>Math.random()\<close>; the sample is a parameter of
  the model. Where the probability of the chosen outcome is 0 the source divides by
  zero: the factor is \<open>Infinity\<close>, the products are infinite or NaN, and the
  constructor, whose test \<open>norm === 0\<close> such a norm does not meet, returns without
  throwing a state that has NaN amplitudes. The model's states hold numbers only, so the
  new state is a \<^typ>\<open>QuantumState option\<close>, with \<open>None\<close> for that state.
\<close>

definition measureQubit ::
  "QuantumState \<Rightarrow> int \<Rightarrow> real \<Rightarrow> error + (int \<times> QuantumState option)" where
  "measureQubit st qubitIndex random =
     and_then (getQubitMeasurementProbabilities st qubitIndex)
       (\<lambda>(prob0, prob1).
          let outcome = (if random < prob0 then 0 else 1);
              n = getNumQubits st
          in and_then (new_Array_fill n (0::complex))
               (\<lambda>zeros.
                  let normalizationFactor = (if outcome = 0 then sqrt prob0 else sqrt prob1)
                  in and_then
                       (collect (map (\<lambda>i.
                            if qubit_bit n qubitIndex (int i) = outcome
                            then and_then (getAmplitude st (int i))
                                   (\<lambda>amp. Inr (amp * complex_of_real (1 / normalizationFactor)))
                            else Inr 0) [0..<length zeros]))
                       (\<lambda>newAmplitudes.
                          if normalizationFactor = 0 then Inr (outcome, None)
                          else and_then (QuantumState_new n (Some newAmplitudes))
                                 (\<lambda>newState. Inr (outcome, Some newState)))))"



text \<open>
  \<open>Math.abs(innerProduct as any)\<close> hands a Complex object to \<open>Math.abs\<close>, which
  converts it to a number through its \<open>valueOf\<close>. For the Complex class of mathjs that
  is its \<open>toString\<close>: the text of \<open>re\<close> alone when \<open>im\<close> is 0, which converts to
  \<open>re\<close>, and a text of the form \<open>a + bi\<close> otherwise, which converts to NaN. A
  JavaScript number that may be NaN is a \<^typ>\<open>real option\<close>, with \<open>None\<close> for NaN;
  \<open>Math.abs\<close> and \<open>Math.pow\<close> of NaN are NaN.
\<close>

definition to_number :: "complex \<Rightarrow> real option" where
  "to_number z = (if Im z = 0 then Some (Re z) else None)"

fun inner_product_loop :: "complex \<Rightarrow> complex list \<Rightarrow> complex list \<Rightarrow> error + complex" where
  "inner_product_loop innerProduct [] amplitudes2 = Inr innerProduct"
| "inner_product_loop innerProduct (a1 # rest1) [] = Inl type_error"
| "inner_product_loop innerProduct (a1 # rest1) (a2 # rest2) =
     (let conj1 = Complex (Re a1) (- Im a1)
      in inner_product_loop (innerProduct + conj1 * a2) rest1 rest2)"

definition calculateFidelity :: "QuantumState \<Rightarrow> QuantumState \<Rightarrow> error + real option" where
  "calculateFidelity state1 state2 =
     (if getNumQubits state1 \<noteq> getNumQubits state2
      then Inl (QubitCountMismatch, [Txt ''States must have the same number of qubits''])
      else and_then (inner_product_loop 0 (getAmplitudes state1) (getAmplitudes state2))
             (\<lambda>innerProduct.
                Inr (map_option (\<lambda>x. \<bar>x\<bar> ^ 2) (to_number innerProduct))))"



section \<open>Simulator\<close>

record Simulator =
  sim_numQubits :: int
  currentState :: QuantumState
  stateHistory :: "QuantumState list"
  executionLog :: "text_line list"

text \<open>The character U+27E9 that closes a ket, as its UTF-8 bytes.\<close>

definition rangle :: string where
  "rangle = [CHR 0xE2, CHR 0x9F, CHR 0xA9]"

definition init_line :: "int \<Rightarrow> text_line" where
  "init_line n = [Txt ''Initialized '', Num (of_int n), Txt ''-qubit system in |'',
                  Txt (replicate (nat n) CHR ''0''), Txt rangle, Txt '' state'']"

text \<open>
  Every method that mutates the session returns what it returns or throws, paired with
  the session after the call: a throw leaves behind whatever was assigned before it.
\<close>

definition reset :: "Simulator \<Rightarrow> (error + unit) \<times> Simulator" where
  "reset sim =
     (case QuantumState_new (sim_numQubits sim) None of
        Inl e \<Rightarrow> (Inl e, sim)
      | Inr st \<Rightarrow>
          let sim1 = sim\<lparr>currentState := st\<rparr>
          in case clone st of
               Inl e \<Rightarrow> (Inl e, sim1)
             | Inr snapshot \<Rightarrow>
                 (Inr (), sim1\<lparr>stateHistory := [snapshot],
                               executionLog := [init_line (sim_numQubits sim)]\<rparr>))"

text \<open>The constructor validates the count and resets; when it throws there is no object.\<close>

definition QuantumSimulator_new :: "int \<Rightarrow> error + Simulator" where
  "QuantumSimulator_new n =
     (if n < 1 \<or> n > 5
      then Inl (InvalidQubitCount, [Txt ''Number of qubits must be between 1 and 5''])
      else and_then (QuantumState_new n None)
             (\<lambda>st. and_then (clone st)
                (\<lambda>snapshot. Inr \<lparr>sim_numQubits = n, currentState = st,
                                  stateHistory = [snapshot], executionLog = [init_line n]\<rparr>)))"

fun join_lines :: "text_line \<Rightarrow> text_line list \<Rightarrow> text_line" where
  "join_lines sep [] = []"
| "join_lines sep [l] = l"
| "join_lines sep (l # ls) = l @ sep @ join_lines sep ls"

definition applied_line :: "QuantumGate \<Rightarrow> int list \<Rightarrow> text_line" where
  "applied_line g ts =
     [Txt ''Applied '', Txt (name g), Txt '' gate to qubit(s): '']
     @ join_lines [Txt '', ''] (map (\<lambda>q. [Txt ''q'', Num (of_int q)]) ts)"

definition error_line :: "QuantumGate \<Rightarrow> error \<Rightarrow> text_line" where
  "error_line g e = [Txt ''Error applying '', Txt (name g), Txt '' gate: ''] @ snd e"

definition sim_applyGate ::
  "Simulator \<Rightarrow> QuantumGate \<Rightarrow> int list \<Rightarrow> (error + unit) \<times> Simulator" where
  "sim_applyGate sim g ts =
     (case applyGate (currentState sim) g ts of
        Inl e \<Rightarrow> (Inl e, sim\<lparr>executionLog := executionLog sim @ [error_line g e]\<rparr>)
      | Inr st \<Rightarrow>
          let sim1 = sim\<lparr>currentState := st\<rparr>
          in case clone st of
               Inl e \<Rightarrow> (Inl e, sim1\<lparr>executionLog := executionLog sim1 @ [error_line g e]\<rparr>)
             | Inr snapshot \<Rightarrow>
                 (Inr (), sim1\<lparr>stateHistory := stateHistory sim1 @ [snapshot],
                               executionLog := executionLog sim1 @ [applied_line g ts]\<rparr>))"







record SimulationResult =
  finalState :: QuantumState
  measurementProbabilities :: "real list"
  result_stateHistory :: "QuantumState list"
  result_executionLog :: "text_line list"

record CircuitElement =
  gate :: QuantumGate
  targetQubits :: "int list"
  position :: int

text \<open>The loop of \<open>executeCircuit\<close>: a throw of \<open>applyGate\<close> ends it.\<close>

fun apply_elements :: "Simulator \<Rightarrow> CircuitElement list \<Rightarrow> (error + unit) \<times> Simulator" where
  "apply_elements sim [] = (Inr (), sim)"
| "apply_elements sim (element # rest) =
     (case sim_applyGate sim (gate element) (targetQubits element) of
        (Inl e, sim') \<Rightarrow> (Inl e, sim')
      | (Inr u, sim') \<Rightarrow> apply_elements sim' rest)"

text \<open>
  \<open>[...circuit].sort((a, b) => a.position - b.position)\<close>: \<open>Array.prototype.sort\<close> is
  stable, and so is \<^const>\<open>sort_key\<close>.
\<close>

definition executeCircuit ::
  "Simulator \<Rightarrow> CircuitElement list \<Rightarrow> (error + SimulationResult) \<times> Simulator" where
  "executeCircuit sim circuit =
     (let sortedCircuit = sort_key position circuit
      in case apply_elements sim sortedCircuit of
           (Inl e, sim') \<Rightarrow> (Inl e, sim')
         | (Inr u, sim') \<Rightarrow>
             (and_then (clone (currentState sim'))
                (\<lambda>final. and_then (collect (map clone (stateHistory sim')))
                   (\<lambda>history. Inr \<lparr>finalState = final,
                        measurementProbabilities =
                          getMeasurementProbabilities (currentState sim'),
                        result_stateHistory = history,
                        result_executionLog = executionLog sim'\<rparr>)),
              sim'))"




text \<open>
  The invariant of a session: the qubit count the constructor accepts, a current state
  of that many qubits, and a history of states.
\<close>

definition sim_ok :: "Simulator \<Rightarrow> bool" where
  "sim_ok sim \<longleftrightarrow>
     1 \<le> sim_numQubits sim \<and> sim_numQubits sim \<le> 5 \<and>
     is_state (currentState sim) \<and> numQubits (currentState sim) = sim_numQubits sim \<and>
     list_all is_state (stateHistory sim)"







section \<open>Construction\<close>

lemma foldl_prob: "foldl (\<lambda>sum amp. sum + prob_of amp) acc amps = acc + sum_list (map prob_of amps)"
  by (induction amps arbitrary: acc) auto

lemma norm_of_eq: "norm_of amps = sqrt (sum_list (map prob_of amps))"
  by (simp add: norm_of_def foldl_prob)

lemma prob_of_nonneg: "0 \<le> prob_of a"
  by (simp add: prob_of_def)

lemma sum_prob_nonneg: "0 \<le> sum_list (map prob_of amps)"
  by (induction amps) (auto simp: prob_of_nonneg)

lemma prob_of_scale: "prob_of (a * complex_of_real c) = prob_of a * c\<^sup>2"
  by (simp add: prob_of_def norm_mult power_mult_distrib)

lemma sum_prob_scale:
  "sum_list (map prob_of (map (\<lambda>amp. amp * complex_of_real c) amps)) = sum_list (map prob_of amps) * c\<^sup>2"
  by (induction amps) (auto simp: prob_of_scale algebra_simps)

lemma normalize_Inr:
  assumes "normalize amps = Inr bs"
  shows "sum_list (map prob_of bs) = 1" and "length bs = length amps"
proof -
  let ?S = "sum_list (map prob_of amps)"
  from assms have nz: "sqrt ?S \<noteq> 0" and bs: "bs = map (\<lambda>amp. amp * complex_of_real (1 / sqrt ?S)) amps"
    by (auto simp: normalize_def norm_of_eq Let_def split: if_splits)
  have pos: "0 < ?S" using nz sum_prob_nonneg [of amps] by (cases "?S = 0") auto
  have "sum_list (map prob_of bs) = ?S * (1 / sqrt ?S)\<^sup>2"
    unfolding bs by (rule sum_prob_scale)
  also have "\<dots> = 1" using pos by (simp add: power_divide)
  finally show "sum_list (map prob_of bs) = 1" .
  show "length bs = length amps" by (simp add: bs)
qed

lemma normalize_zero:
  "sum_list (map prob_of amps) = 0 \<Longrightarrow> normalize amps = Inl (ZeroStateError, [Txt ''Cannot normalize zero state''])"
  by (simp add: normalize_def norm_of_eq)

lemma normalize_unit:
  "sum_list (map prob_of amps) = 1 \<Longrightarrow> normalize amps = Inr amps"
  by (simp add: normalize_def norm_of_eq)

lemma pow2_eq_length: "real (length (xs::'a list)) = pow2 n \<Longrightarrow> 0 \<le> n \<and> length xs = 2 ^ nat n"
proof (cases "0 \<le> n")
  case True
  assume "real (length xs) = pow2 n"
  with True have "real (length xs) = real (2 ^ nat n)" by (simp add: pow2_def)
  then show ?thesis using True by simp
next
  case False
  assume a: "real (length xs) = pow2 n"
  have "(1::real) < 2 ^ nat (- n)" using False by (simp add: one_less_power)
  then have "0 < pow2 n" "pow2 n < 1" using False by (simp_all add: pow2_def)
  with a have "0 < real (length xs)" "real (length xs) < 1" by simp_all
  then show ?thesis by simp
qed

lemma QuantumState_new_Inr:
  assumes "QuantumState_new n init = Inr st"
  shows "is_state st" and "numQubits st = n"
proof -
  from assms have n5: "n \<le> 5" by (auto simp: QuantumState_new_def split: if_splits)
  from assms obtain amps where
    src: "(case init of Some i \<Rightarrow> if real (length i) \<noteq> pow2 n then Inl (DimensionMismatch,
                         [Txt ''Initial state must have '', Num (pow2 n),
                          Txt '' amplitudes for '', Num (of_int n), Txt '' qubits'']) else Inr i
           | None \<Rightarrow> and_then (new_Array_fill n 0) (\<lambda>zeros. Inr (zeros[0 := 1]))) = Inr amps"
    and nrm: "normalize amps = Inr (amplitudes st)" and nq: "numQubits st = n"
    by (auto simp: QuantumState_new_def and_then_def split: if_splits sum.splits)
  from src have len: "0 \<le> n \<and> length amps = 2 ^ nat n"
    by (auto simp: and_then_def new_Array_fill_def dest: pow2_eq_length split: option.splits if_splits sum.splits)
  show "numQubits st = n" by fact
  show "is_state st"
    using normalize_Inr [OF nrm] len n5 nq
    by (simp add: is_state_def getMeasurementProbabilities_def)
qed

lemma QuantumState_new_Some_unit:
  assumes "0 \<le> n" "n \<le> 5" "length amps = 2 ^ nat n" "sum_list (map prob_of amps) = 1"
  shows "QuantumState_new n (Some amps) = Inr \<lparr>amplitudes = amps, numQubits = n\<rparr>"
  using assms by (simp add: QuantumState_new_def and_then_def pow2_def normalize_unit)

lemma clone_id: "is_state st \<Longrightarrow> clone st = Inr st"
  by (simp add: clone_def is_state_def getMeasurementProbabilities_def QuantumState_new_Some_unit)

lemma is_state_iff_constructed: "is_state st \<longleftrightarrow> (\<exists>n init. QuantumState_new n init = Inr st)"
  using clone_id [of st] QuantumState_new_Inr(1) unfolding clone_def by blast

lemma applySingleQubitGate_Inr:
  "applySingleQubitGate st g t = Inr st' \<Longrightarrow> is_state st' \<and> numQubits st' = numQubits st"
  by (auto simp: applySingleQubitGate_def and_then_def getNumQubits_def Let_def
      dest: QuantumState_new_Inr split: if_splits sum.splits)

lemma applyTwoQubitGate_Inr:
  "applyTwoQubitGate st g c t = Inr st' \<Longrightarrow> is_state st' \<and> numQubits st' = numQubits st"
  by (auto simp: applyTwoQubitGate_def and_then_def getNumQubits_def Let_def
      dest: QuantumState_new_Inr split: if_splits sum.splits)

lemma applyGate_Inr:
  "applyGate st g ts = Inr st' \<Longrightarrow> is_state st' \<and> numQubits st' = numQubits st"
  by (auto simp: applyGate_def dest: applySingleQubitGate_Inr applyTwoQubitGate_Inr split: if_splits)

lemma setAmplitude_Inr:
  "setAmplitude st b a = (Inr u, st') \<Longrightarrow> is_state st \<Longrightarrow> is_state st'"
  by (auto simp: setAmplitude_def Let_def is_state_def getMeasurementProbabilities_def
      dest: normalize_Inr split: if_splits sum.splits)

lemma setAmplitude_normalized:
  "setAmplitude st b a = (Inr u, st') \<Longrightarrow> sum_list (getMeasurementProbabilities st') = 1"
  by (auto simp: setAmplitude_def Let_def getMeasurementProbabilities_def
      dest: normalize_Inr split: if_splits sum.splits)

lemma gate_sequence_states:
  "gate_sequence st gs = Inr sts \<Longrightarrow> \<forall>s \<in> set sts. is_state s"
proof (induction gs arbitrary: st sts)
  case Nil
  then show ?case by simp
next
  case (Cons p gs)
  obtain g ts where p: "p = (g, ts)" by (cases p)
  from Cons.prems obtain st' rest where
    step: "applyGate st g ts = Inr st'" and more: "gate_sequence st' gs = Inr rest"
    and sts: "sts = st' # rest"
    by (auto simp: p and_then_def split: sum.splits)
  from applyGate_Inr [OF step] Cons.IH [OF more] show ?case by (simp add: sts)
qed

lemma normalize_all_zero:
  "normalize (replicate k 0) = Inl (ZeroStateError, [Txt ''Cannot normalize zero state''])"
  by (rule normalize_zero) (induction k, auto simp: prob_of_def)

text \<open>
  Claim C5. Constructing a QuantumState with a qubit count outside \<open>[1, 5]\<close> should
  fail with InvalidQubitCount. The constructor rejects 6, but with 0 qubits it returns
  a state of one amplitude; the constructor of the simulator rejects 0 as well as 6.
\<close>

theorem QuantumState_new_zero_qubits:
  "QuantumState_new 0 None = Inr \<lparr>amplitudes = [1], numQubits = 0\<rparr>
   \<and> QuantumState_new 6 None = Inl (InvalidQubitCount, [Txt ''Maximum 5 qubits supported''])
   \<and> QuantumSimulator_new 0
       = Inl (InvalidQubitCount, [Txt ''Number of qubits must be between 1 and 5''])
   \<and> QuantumSimulator_new 6
       = Inl (InvalidQubitCount, [Txt ''Number of qubits must be between 1 and 5''])"
  by (simp add: QuantumState_new_def QuantumSimulator_new_def and_then_def new_Array_fill_def
      normalize_def norm_of_def prob_of_def)

section \<open>Evaluating the gate routines\<close>

lemma upt_2: "[0..<2] = [0, 1]" by (simp add: upt_rec)
lemma upt_4: "[0..<4] = [0, 1, 2, 3]" by (simp add: upt_rec)

lemma new_Array_fill_1: "new_Array_fill 1 v = Inr [v, v]"
  by (simp add: new_Array_fill_def numeral_eq_Suc)

lemma new_Array_fill_2: "new_Array_fill 2 v = Inr [v, v, v, v]"
  by (simp add: new_Array_fill_def numeral_eq_Suc)

lemma QuantumState_new_1: "QuantumState_new 1 None = Inr \<lparr>amplitudes = [1, 0], numQubits = 1\<rparr>"
  by (simp add: QuantumState_new_def and_then_def new_Array_fill_1 normalize_def
      norm_of_def prob_of_def)

lemma QuantumState_new_2: "QuantumState_new 2 None = Inr \<lparr>amplitudes = [1, 0, 0, 0], numQubits = 2\<rparr>"
  by (simp add: QuantumState_new_def and_then_def new_Array_fill_2 normalize_def
      norm_of_def prob_of_def)

lemma single_qubit_apply:
  assumes "qubits g = 1" "matrix g = [[m00, m01], [m10, m11]]"
  shows "applySingleQubitGate \<lparr>amplitudes = [a, b], numQubits = 1\<rparr> g 0
         = QuantumState_new 1 (Some [m00 * a + m01 * b, m10 * a + m11 * b])"
  using assms
  by (simp add: applySingleQubitGate_def getNumQubits_def new_Array_fill_1 and_then_def
      upt_2 single_amplitude_def qubit_bit_def bit_mask_def gate_term_def getAmplitude_def)

lemma hadamard_first_of_two:
  assumes "qubits g = 1" "matrix g = [[m00, m01], [m10, m11]]"
  shows "applySingleQubitGate \<lparr>amplitudes = [a, b, c, d], numQubits = 2\<rparr> g 0
         = QuantumState_new 2 (Some [m00 * a + m01 * c, m00 * b + m01 * d,
                                      m10 * a + m11 * c, m10 * b + m11 * d])"
  using assms
  by (simp add: applySingleQubitGate_def getNumQubits_def new_Array_fill_2 and_then_def
      upt_4 single_amplitude_def qubit_bit_def bit_mask_def gate_term_def getAmplitude_def)

lemma cnot_0_1_of_two:
  "applyTwoQubitGate \<lparr>amplitudes = [a, b, c, d], numQubits = 2\<rparr> CNOTGate 0 1
   = QuantumState_new 2 (Some [a, b, d, d])"
  by (simp add: applyTwoQubitGate_def getNumQubits_def new_Array_fill_2 and_then_def
      upt_4 two_amplitude_def four_states_def qubit_bit_def bit_mask_def gate_term_def
      getAmplitude_def CNOTGate_def)

lemma prob_of_of_real: "prob_of (complex_of_real x) = x\<^sup>2"
  by (simp add: prob_of_def)

lemma hadamard_matrix:
  "qubits HadamardGate = 1"
  "matrix HadamardGate = [[complex_of_real (1 / sqrt 2), complex_of_real (1 / sqrt 2)],
                          [complex_of_real (1 / sqrt 2), complex_of_real (- 1 / sqrt 2)]]"
  by (simp_all add: HadamardGate_def SQRT2_def)

lemma pauli_x_matrix: "qubits PauliXGate = 1" "matrix PauliXGate = [[0, 1], [1, 0]]"
  by (simp_all add: PauliXGate_def)

lemma hadamard_on_ket00:
  "applySingleQubitGate \<lparr>amplitudes = [1, 0, 0, 0], numQubits = 2\<rparr> HadamardGate 0
   = Inr \<lparr>amplitudes = [complex_of_real (1 / sqrt 2), 0, complex_of_real (1 / sqrt 2), 0],
          numQubits = 2\<rparr>"
proof -
  have "sum_list (map prob_of [complex_of_real (1 / sqrt 2), 0, complex_of_real (1 / sqrt 2), 0]) = 1"
    by (simp add: prob_of_def power_divide norm_divide)
  then have "QuantumState_new 2 (Some [complex_of_real (1 / sqrt 2), 0, complex_of_real (1 / sqrt 2), 0])
     = Inr \<lparr>amplitudes = [complex_of_real (1 / sqrt 2), 0, complex_of_real (1 / sqrt 2), 0], numQubits = 2\<rparr>"
    by (intro QuantumState_new_Some_unit) simp_all
  then show ?thesis
    by (simp add: hadamard_first_of_two [OF hadamard_matrix])
qed

lemma collapse_to_ket00:
  "QuantumState_new 2 (Some [complex_of_real (1 / sqrt 2), 0, 0, 0])
   = Inr \<lparr>amplitudes = [1, 0, 0, 0], numQubits = 2\<rparr>"
proof -
  have "norm_of [complex_of_real (1 / sqrt 2), 0, 0, 0] = 1 / sqrt 2"
    by (simp add: norm_of_def prob_of_def power_divide norm_divide real_sqrt_divide)
  then show ?thesis
    by (simp add: QuantumState_new_def and_then_def pow2_def normalize_def)
qed

text \<open>
  Claim C1. The Bell-state scenario: from \<open>|00\<rangle>\<close>, Hadamard on qubit 0 and then CNOT
  with control 0 and target 1 should give the probabilities 0.5, 0, 0, 0.5. The two-qubit
  routine reads the amplitude of \<open>|11\<rangle>\<close> where it should read that of \<open>|10\<rangle>\<close>,
  so the amplitude of \<open>|10\<rangle>\<close> is lost and the scenario ends in \<open>|00\<rangle>\<close> with
  probability 1.
\<close>

theorem bell_scenario_probabilities:
  "and_then (QuantumState_new 2 None)
     (\<lambda>s0. and_then (applySingleQubitGate s0 HadamardGate 0)
        (\<lambda>s1. and_then (applyTwoQubitGate s1 CNOTGate 0 1)
           (\<lambda>s2. Inr (getMeasurementProbabilities s2))))
   = Inr [1, 0, 0, 0]"
  by (simp only: QuantumState_new_2 hadamard_on_ket00 cnot_0_1_of_two collapse_to_ket00
      and_then_def sum.case getMeasurementProbabilities_def QuantumState.simps)
    (simp add: prob_of_def)

lemma ket10: "QuantumState_new 2 (Some [0, 0, 1, 0]) = Inr \<lparr>amplitudes = [0, 0, 1, 0], numQubits = 2\<rparr>"
  by (intro QuantumState_new_Some_unit) (simp_all add: prob_of_def)

text \<open>
  Claim C2. CNOT with control 0 and target 1 leaves \<open>|00\<rangle>\<close> unchanged, as claimed;
  on \<open>|10\<rangle>\<close> it should return \<open>|11\<rangle>\<close>, but every amplitude it computes is 0
  and the constructor throws instead of returning a state.
\<close>

theorem cnot_on_ket00_and_ket10:
  "applyTwoQubitGate \<lparr>amplitudes = [1, 0, 0, 0], numQubits = 2\<rparr> CNOTGate 0 1
     = Inr \<lparr>amplitudes = [1, 0, 0, 0], numQubits = 2\<rparr>
   \<and> QuantumState_new 2 (Some [0, 0, 1, 0]) = Inr \<lparr>amplitudes = [0, 0, 1, 0], numQubits = 2\<rparr>
   \<and> applyTwoQubitGate \<lparr>amplitudes = [0, 0, 1, 0], numQubits = 2\<rparr> CNOTGate 0 1
     = Inl (ZeroStateError, [Txt ''Cannot normalize zero state''])"
proof -
  have a: "QuantumState_new 2 (Some [1, 0, 0, 0]) = Inr \<lparr>amplitudes = [1, 0, 0, 0], numQubits = 2\<rparr>"
    by (intro QuantumState_new_Some_unit) (simp_all add: prob_of_def)
  have b: "QuantumState_new 2 (Some [0, 0, 0, 0]) = Inl (ZeroStateError, [Txt ''Cannot normalize zero state''])"
    using normalize_all_zero [of 4]
    by (simp add: QuantumState_new_def and_then_def pow2_def numeral_eq_Suc)
  show ?thesis by (simp add: cnot_0_1_of_two a b ket10)
qed

lemma cmod_parallelogram: "(cmod (a + b))\<^sup>2 + (cmod (a - b))\<^sup>2 = 2 * ((cmod a)\<^sup>2 + (cmod b)\<^sup>2)"
  unfolding cmod_power2 by (simp add: power2_eq_square algebra_simps)

lemma single_qubit_state:
  assumes "is_state st" "numQubits st = 1"
  obtains a b where "st = \<lparr>amplitudes = [a, b], numQubits = 1\<rparr>" "prob_of a + prob_of b = 1"
proof -
  from assms have "length (amplitudes st) = 2" by (simp add: is_state_def)
  then obtain a b where ab: "amplitudes st = [a, b]"
    by (cases "amplitudes st"; cases "tl (amplitudes st)") auto
  with assms have "prob_of a + prob_of b = 1"
    by (simp add: is_state_def getMeasurementProbabilities_def)
  moreover have "st = \<lparr>amplitudes = [a, b], numQubits = 1\<rparr>" using ab assms(2) by (cases st) simp
  ultimately show ?thesis using that by blast
qed

text \<open>
  Claim C9. For every single-qubit state, applying Pauli-X twice returns the state
  with its original amplitudes, and so does applying Hadamard twice.
\<close>

theorem pauli_x_and_hadamard_twice:
  assumes "is_state st" "numQubits st = 1"
  shows "and_then (applySingleQubitGate st PauliXGate 0)
           (\<lambda>st'. applySingleQubitGate st' PauliXGate 0) = Inr st
       \<and> and_then (applySingleQubitGate st HadamardGate 0)
           (\<lambda>st'. applySingleQubitGate st' HadamardGate 0) = Inr st"
proof -
  obtain a b where st: "st = \<lparr>amplitudes = [a, b], numQubits = 1\<rparr>" and ab: "prob_of a + prob_of b = 1"
    using assms by (rule single_qubit_state)
  have x1: "QuantumState_new 1 (Some [b, a]) = Inr \<lparr>amplitudes = [b, a], numQubits = 1\<rparr>"
    using ab by (intro QuantumState_new_Some_unit) simp_all
  have x2: "QuantumState_new 1 (Some [a, b]) = Inr \<lparr>amplitudes = [a, b], numQubits = 1\<rparr>"
    using ab by (intro QuantumState_new_Some_unit) simp_all
  have X: "and_then (applySingleQubitGate st PauliXGate 0)
           (\<lambda>st'. applySingleQubitGate st' PauliXGate 0) = Inr st"
    by (simp add: st single_qubit_apply [OF pauli_x_matrix] x1 x2 and_then_def)
  define w where "w = complex_of_real (1 / sqrt 2)"
  have mat: "matrix HadamardGate = [[w, w], [w, - w]]"
    by (simp add: HadamardGate_def SQRT2_def w_def)
  have "w * w = complex_of_real ((1 / sqrt 2) * (1 / sqrt 2))"
    unfolding w_def by (simp only: of_real_mult)
  also have "\<dots> = 1 / 2" by simp
  finally have w2: "w * w = 1 / 2" .
  have pw: "prob_of (z * w) = prob_of z / 2" for z
    unfolding w_def prob_of_scale by (simp add: power_divide)
  have app: "applySingleQubitGate \<lparr>amplitudes = [c, d], numQubits = 1\<rparr> HadamardGate 0
        = QuantumState_new 1 (Some [(c + d) * w, (c - d) * w])" for c d
  proof -
    have "w * c + w * d = (c + d) * w" "w * c + - w * d = (c - d) * w"
      by (simp_all add: algebra_simps)
    then show ?thesis
      using single_qubit_apply [OF hadamard_matrix(1) mat, of c d] by simp
  qed
  have "prob_of ((a + b) * w) + prob_of ((a - b) * w) = ((cmod (a + b))\<^sup>2 + (cmod (a - b))\<^sup>2) / 2"
    unfolding pw by (simp add: prob_of_def add_divide_distrib)
  also have "\<dots> = prob_of a + prob_of b"
    by (simp add: cmod_parallelogram prob_of_def)
  finally have hp: "prob_of ((a + b) * w) + prob_of ((a - b) * w) = 1"
    using ab by simp
  have h1: "QuantumState_new 1 (Some [(a + b) * w, (a - b) * w])
    = Inr \<lparr>amplitudes = [(a + b) * w, (a - b) * w], numQubits = 1\<rparr>"
    using hp by (intro QuantumState_new_Some_unit) simp_all
  have "((a + b) * w + (a - b) * w) * w = (w * w) * (2 * a)"
       "((a + b) * w - (a - b) * w) * w = (w * w) * (2 * b)"
    by (simp_all add: algebra_simps)
  then have inv: "((a + b) * w + (a - b) * w) * w = a" "((a + b) * w - (a - b) * w) * w = b"
    unfolding w2 by simp_all
  have H: "and_then (applySingleQubitGate st HadamardGate 0)
           (\<lambda>st'. applySingleQubitGate st' HadamardGate 0) = Inr st"
    by (simp only: st app h1 and_then_def sum.case inv x2)
  from X H show ?thesis by simp
qed

theorem pauli_x_and_hadamard_twice_witness:
  "is_state \<lparr>amplitudes = [1, 0], numQubits = 1\<rparr>
   \<and> and_then (applySingleQubitGate \<lparr>amplitudes = [1, 0], numQubits = 1\<rparr> PauliXGate 0)
         (\<lambda>st'. applySingleQubitGate st' PauliXGate 0)
       = Inr \<lparr>amplitudes = [1, 0], numQubits = 1\<rparr>
   \<and> and_then (applySingleQubitGate \<lparr>amplitudes = [1, 0], numQubits = 1\<rparr> HadamardGate 0)
         (\<lambda>st'. applySingleQubitGate st' HadamardGate 0)
       = Inr \<lparr>amplitudes = [1, 0], numQubits = 1\<rparr>"
proof -
  have h: "is_state \<lparr>amplitudes = [1, 0], numQubits = 1\<rparr>"
    by (simp add: is_state_def getMeasurementProbabilities_def prob_of_def)
  show ?thesis
    using h pauli_x_and_hadamard_twice [OF h] by simp
qed

section \<open>Normalization\<close>

text \<open>
  In exact arithmetic, every state the constructor returns, every state a
  \<open>setAmplitude\<close> that returns leaves, and every state a gate application returns has
  probabilities that sum to 1, and normalizing an all-zero vector throws.
\<close>

lemma normalization_exact:
  "(QuantumState_new n init = Inr st \<longrightarrow> sum_list (getMeasurementProbabilities st) = 1)
   \<and> (setAmplitude st1 b a = (Inr (), st2) \<longrightarrow> sum_list (getMeasurementProbabilities st2) = 1)
   \<and> (applyGate st3 g ts = Inr st4 \<longrightarrow> sum_list (getMeasurementProbabilities st4) = 1)
   \<and> (QuantumState_new m init' = Inr st5 \<and> gate_sequence st5 gs = Inr sts \<longrightarrow>
        (\<forall>s \<in> set (st5 # sts). sum_list (getMeasurementProbabilities s) = 1))
   \<and> normalize (replicate k 0) = Inl (ZeroStateError, [Txt ''Cannot normalize zero state''])"
  using QuantumState_new_Inr(1) [of n init st] QuantumState_new_Inr(1) [of m init' st5]
    setAmplitude_normalized [of st1 b a "()" st2] applyGate_Inr [of st3 g ts st4]
    gate_sequence_states [of st5 gs sts] normalize_all_zero [of k]
  by (simp add: is_state_def)

text \<open>
  Claim C4. Every QuantumState produced by construction, \<open>setAmplitude\<close> or a gate
  application should be normalized, an all-zero vector being refused with
  ZeroStateError instead of producing a state. \<open>setAmplitude\<close> writes the amplitude
  into the object before it normalizes: setting amplitude 0 of \<open>|0\<rangle>\<close> to 0 throws
  ZeroStateError and leaves the object holding the all-zero vector, whose probabilities
  sum to 0.
\<close>

theorem setAmplitude_throw_leaves_zero_vector:
  "QuantumState_new 1 None = Inr \<lparr>amplitudes = [1, 0], numQubits = 1\<rparr>
   \<and> setAmplitude \<lparr>amplitudes = [1, 0], numQubits = 1\<rparr> 0 0
       = (Inl (ZeroStateError, [Txt ''Cannot normalize zero state'']),
          \<lparr>amplitudes = [0, 0], numQubits = 1\<rparr>)
   \<and> sum_list (getMeasurementProbabilities \<lparr>amplitudes = [0, 0], numQubits = 1\<rparr>) = 0"
  by (simp add: QuantumState_new_1 setAmplitude_def normalize_def norm_of_def prob_of_def
      getMeasurementProbabilities_def)

section \<open>Fidelity\<close>

lemma inner_product_loop_eq:
  "length as = length bs \<Longrightarrow>
   inner_product_loop acc as bs = Inr (acc + sum_list (map2 (\<lambda>a b. cnj a * b) as bs))"
proof (induction acc as bs rule: inner_product_loop.induct)
  case (3 innerProduct a1 rest1 a2 rest2)
  have "Complex (Re a1) (- Im a1) = cnj a1" by (simp add: complex_eq_iff)
  with 3 show ?case by (simp add: Let_def algebra_simps)
qed simp_all

lemma cmod_sum_list_le: "cmod (sum_list zs) \<le> sum_list (map cmod zs)"
  by (induction zs) (auto intro: order_trans [OF norm_triangle_ineq])

lemma product_le_half_squares:
  "length as = length bs \<Longrightarrow>
   sum_list (map cmod (map2 (\<lambda>a b. cnj a * b) as bs))
   \<le> (sum_list (map prob_of as) + sum_list (map prob_of bs)) / 2"
proof (induction as bs rule: list_induct2)
  case Nil
  then show ?case by simp
next
  case (Cons a as b bs)
  have "0 \<le> (cmod a - cmod b)\<^sup>2" by simp
  then have "cmod a * cmod b \<le> ((cmod a)\<^sup>2 + (cmod b)\<^sup>2) / 2"
    by (simp add: power2_diff field_simps)
  with Cons.IH show ?case
    by (simp add: norm_mult prob_of_def add_divide_distrib)
qed

lemma to_number_le_cmod: "to_number z = Some x \<Longrightarrow> \<bar>x\<bar> \<le> cmod z"
  by (auto simp: to_number_def abs_Re_le_cmod split: if_splits)

lemma calculateFidelity_range:
  assumes "is_state s1" "is_state s2" "calculateFidelity s1 s2 = Inr (Some f)"
  shows "0 \<le> f \<and> f \<le> 1"
proof -
  from assms(3) have nq: "numQubits s1 = numQubits s2"
    by (auto simp: calculateFidelity_def getNumQubits_def split: if_splits)
  with assms have len: "length (amplitudes s1) = length (amplitudes s2)"
    by (simp add: is_state_def)
  let ?ip = "sum_list (map2 (\<lambda>a b. cnj a * b) (amplitudes s1) (amplitudes s2))"
  from assms(3) nq obtain x where x: "to_number ?ip = Some x" and f: "f = \<bar>x\<bar>\<^sup>2"
    by (auto simp: calculateFidelity_def getNumQubits_def getAmplitudes_def and_then_def
        inner_product_loop_eq [OF len])
  have "\<bar>x\<bar> \<le> cmod ?ip" using x by (rule to_number_le_cmod)
  also have "\<dots> \<le> sum_list (map cmod (map2 (\<lambda>a b. cnj a * b) (amplitudes s1) (amplitudes s2)))"
    by (rule cmod_sum_list_le)
  also have "\<dots> \<le> (sum_list (map prob_of (amplitudes s1)) + sum_list (map prob_of (amplitudes s2))) / 2"
    by (rule product_le_half_squares [OF len])
  also have "\<dots> = 1"
    using assms(1,2) by (simp add: is_state_def getMeasurementProbabilities_def)
  finally have "\<bar>x\<bar> \<le> 1" .
  then have "\<bar>x\<bar>\<^sup>2 \<le> 1" by (simp add: abs_square_le_1)
  then show ?thesis by (simp add: f)
qed

lemma self_inner_product:
  "sum_list (map2 (\<lambda>a b. cnj a * b) as as) = complex_of_real (sum_list (map prob_of as))"
proof (induction as)
  case Nil
  then show ?case by simp
next
  case (Cons a as)
  have "cnj a * a = complex_of_real ((cmod a)\<^sup>2)"
    by (simp only: complex_norm_square mult.commute)
  with Cons show ?case by (simp add: prob_of_def)
qed

lemma calculateFidelity_self:
  assumes "is_state s"
  shows "calculateFidelity s s = Inr (Some 1)"
  using assms
  by (simp add: calculateFidelity_def getAmplitudes_def and_then_def inner_product_loop_eq
      self_inner_product to_number_def is_state_def getMeasurementProbabilities_def)

lemma calculateFidelity_mismatch:
  "numQubits s1 \<noteq> numQubits s2 \<Longrightarrow>
   calculateFidelity s1 s2 = Inl (QubitCountMismatch, [Txt ''States must have the same number of qubits''])"
  by (simp add: calculateFidelity_def getNumQubits_def)

lemma calculateFidelity_examples:
  "calculateFidelity \<lparr>amplitudes = [1, 0], numQubits = 1\<rparr>
     \<lparr>amplitudes = [0, 1], numQubits = 1\<rparr> = Inr (Some 0)"
  "calculateFidelity \<lparr>amplitudes = [1, 0], numQubits = 1\<rparr>
     \<lparr>amplitudes = [complex_of_real (1 / sqrt 2), complex_of_real (1 / sqrt 2)],
      numQubits = 1\<rparr> = Inr (Some (1 / 2))"
  by (simp_all add: calculateFidelity_def getNumQubits_def getAmplitudes_def and_then_def
      to_number_def Let_def power_divide)

text \<open>
  Claim C6. \<open>calculateFidelity\<close> should return the squared magnitude of the complex
  inner product, a real number in \<open>[0, 1]\<close>. It takes the magnitude with \<open>Math.abs\<close>,
  which sees a Complex object as a number only when its imaginary part is 0. For the
  states \<open>(0.6, 0.8)\<close> and \<open>(0.6, 0.8i)\<close> the inner product is \<open>0.36 + 0.64i\<close>, of
  squared magnitude \<open>337/625\<close>, and the code returns NaN.
\<close>

theorem fidelity_of_complex_overlap:
  "QuantumState_new 1 (Some [3 / 5, 4 / 5]) = Inr \<lparr>amplitudes = [3 / 5, 4 / 5], numQubits = 1\<rparr>
   \<and> QuantumState_new 1 (Some [3 / 5, Complex 0 (4 / 5)])
       = Inr \<lparr>amplitudes = [3 / 5, Complex 0 (4 / 5)], numQubits = 1\<rparr>
   \<and> calculateFidelity \<lparr>amplitudes = [3 / 5, 4 / 5], numQubits = 1\<rparr>
         \<lparr>amplitudes = [3 / 5, Complex 0 (4 / 5)], numQubits = 1\<rparr> = Inr None
   \<and> (cmod (cnj (3 / 5) * (3 / 5) + cnj (4 / 5) * Complex 0 (4 / 5)))\<^sup>2 = 337 / 625"
proof -
  have p: "prob_of (3 / 5) = 9 / 25" "prob_of (4 / 5) = 16 / 25" "prob_of (Complex 0 (4 / 5)) = 16 / 25"
    by (simp_all add: prob_of_def norm_divide power_divide cmod_def)
  have a: "QuantumState_new 1 (Some [3 / 5, 4 / 5]) = Inr \<lparr>amplitudes = [3 / 5, 4 / 5], numQubits = 1\<rparr>"
    by (intro QuantumState_new_Some_unit) (simp_all add: p)
  have b: "QuantumState_new 1 (Some [3 / 5, Complex 0 (4 / 5)])
       = Inr \<lparr>amplitudes = [3 / 5, Complex 0 (4 / 5)], numQubits = 1\<rparr>"
    by (intro QuantumState_new_Some_unit) (simp_all add: p)
  have c: "calculateFidelity \<lparr>amplitudes = [3 / 5, 4 / 5], numQubits = 1\<rparr>
         \<lparr>amplitudes = [3 / 5, Complex 0 (4 / 5)], numQubits = 1\<rparr> = Inr None"
    by (simp add: calculateFidelity_def getNumQubits_def getAmplitudes_def and_then_def
        to_number_def Let_def)
  have "cnj (3 / 5) * (3 / 5) + cnj (4 / 5) * Complex 0 (4 / 5) = Complex (9 / 25) (16 / 25)"
    by (simp add: complex_eq_iff)
  then have d: "(cmod (cnj (3 / 5) * (3 / 5) + cnj (4 / 5) * Complex 0 (4 / 5)))\<^sup>2 = 337 / 625"
    by (simp only: cmod_power2 complex.sel) (simp add: power2_eq_square)
  from a b c d show ?thesis by simp
qed

section \<open>Measurement of one qubit\<close>











text \<open>
  Claim C7. \<open>measureQubit\<close> should return, for every state, qubit in range and
  sample in \<open>[0, 1)\<close>, a normalized state. It picks outcome 1 whenever the sample is
  not below \<open>prob0\<close>, also when \<open>prob1\<close> is 0, and then divides by zero. The state
  object that a throwing \<open>setAmplitude\<close> leaves behind (all amplitudes 0) shows it in
  exact arithmetic: both probabilities are 0, the outcome is 1, and the state returned
  has NaN amplitudes.
\<close>

theorem measureQubit_zero_probability:
  "setAmplitude \<lparr>amplitudes = [1, 0], numQubits = 1\<rparr> 0 0
     = (Inl (ZeroStateError, [Txt ''Cannot normalize zero state'']),
        \<lparr>amplitudes = [0, 0], numQubits = 1\<rparr>)
   \<and> getQubitMeasurementProbabilities \<lparr>amplitudes = [0, 0], numQubits = 1\<rparr> 0 = Inr (0, 0)
   \<and> measureQubit \<lparr>amplitudes = [0, 0], numQubits = 1\<rparr> 0 (1 / 2) = Inr (1, None)"
proof -
  have a: "setAmplitude \<lparr>amplitudes = [1, 0], numQubits = 1\<rparr> 0 0
     = (Inl (ZeroStateError, [Txt ''Cannot normalize zero state'']),
        \<lparr>amplitudes = [0, 0], numQubits = 1\<rparr>)"
    by (simp add: setAmplitude_def normalize_def norm_of_def prob_of_def)
  have b: "getQubitMeasurementProbabilities \<lparr>amplitudes = [0, 0], numQubits = 1\<rparr> 0 = Inr (0, 0)"
    by (simp add: getQubitMeasurementProbabilities_def qubit_bit_def prob_of_def upt_2)
  have c: "measureQubit \<lparr>amplitudes = [0, 0], numQubits = 1\<rparr> 0 (1 / 2) = Inr (1, None)"
    unfolding measureQubit_def b
    by (simp add: and_then_def getNumQubits_def new_Array_fill_1 upt_2 qubit_bit_def
        getAmplitude_def)
  from a b c show ?thesis by simp
qed

section \<open>Sessions\<close>

lemma basis_vector_prob:
  "i < m \<Longrightarrow> sum_list (map prob_of ((replicate m 0)[i := 1])) = 1"
proof (induction m arbitrary: i)
  case 0
  then show ?case by simp
next
  case (Suc m)
  then show ?case
    by (cases i) (simp_all add: prob_of_def sum_list_replicate)
qed

lemma QuantumState_new_None_ok:
  assumes "0 \<le> n" "n \<le> 5"
  shows "\<exists>st. QuantumState_new n None = Inr st \<and> is_state st \<and> numQubits st = n"
proof -
  have pos: "0 < (2::nat) ^ nat n" by simp
  from basis_vector_prob [OF pos] have "normalize ((replicate (2 ^ nat n) 0)[0 := 1]) = Inr ((replicate (2 ^ nat n) 0)[0 := 1])"
    by (rule normalize_unit)
  with assms have "QuantumState_new n None
      = Inr \<lparr>amplitudes = (replicate (2 ^ nat n) 0)[0 := 1], numQubits = n\<rparr>"
    by (simp add: QuantumState_new_def and_then_def new_Array_fill_def)
  then show ?thesis using QuantumState_new_Inr by blast
qed


lemma QuantumSimulator_new_valid:
  "1 \<le> n \<Longrightarrow> n \<le> 5 \<Longrightarrow> \<exists>sim. QuantumSimulator_new n = Inr sim"
  using QuantumState_new_None_ok [of n]
  by (auto simp: QuantumSimulator_new_def and_then_def clone_id)

lemma reset_ok:
  assumes "sim_ok sim"
  shows "\<exists>sim'. reset sim = (Inr (), sim') \<and> sim_ok sim' \<and>
           length (stateHistory sim') = 1 \<and> length (executionLog sim') = 1 \<and>
           sim_numQubits sim' = sim_numQubits sim"
proof -
  from assms have n: "0 \<le> sim_numQubits sim" "sim_numQubits sim \<le> 5" "1 \<le> sim_numQubits sim"
    by (simp_all add: sim_ok_def)
  then obtain st where st: "QuantumState_new (sim_numQubits sim) None = Inr st" "is_state st"
      "numQubits st = sim_numQubits sim"
    using QuantumState_new_None_ok [of "sim_numQubits sim"] by auto
  then show ?thesis using n
    by (simp add: reset_def clone_id sim_ok_def)
qed

lemma sim_applyGate_fails:
  "applyGate (currentState sim) g ts = Inl e \<Longrightarrow>
   sim_applyGate sim g ts = (Inl e, sim\<lparr>executionLog := executionLog sim @ [error_line g e]\<rparr>)"
  by (simp add: sim_applyGate_def)

lemma sim_applyGate_succeeds:
  "applyGate (currentState sim) g ts = Inr st \<Longrightarrow>
   sim_applyGate sim g ts
   = (Inr (), sim\<lparr>currentState := st, stateHistory := stateHistory sim @ [st],
                   executionLog := executionLog sim @ [applied_line g ts]\<rparr>)"
  using applyGate_Inr [of "currentState sim" g ts st]
  by (simp add: sim_applyGate_def clone_id)

lemma sim_applyGate_cases:
  obtains (fails) e where "applyGate (currentState sim) g ts = Inl e"
      "sim_applyGate sim g ts = (Inl e, sim\<lparr>executionLog := executionLog sim @ [error_line g e]\<rparr>)"
  | (succeeds) st where "applyGate (currentState sim) g ts = Inr st"
      "sim_applyGate sim g ts
       = (Inr (), sim\<lparr>currentState := st, stateHistory := stateHistory sim @ [st],
                       executionLog := executionLog sim @ [applied_line g ts]\<rparr>)"
  using sim_applyGate_fails sim_applyGate_succeeds
  by (cases "applyGate (currentState sim) g ts") blast+

lemma sim_applyGate_ok:
  assumes "sim_ok sim" "sim_applyGate sim g ts = (r, sim')"
  shows "sim_ok sim'"
proof (cases rule: sim_applyGate_cases [of sim g ts])
  case (fails e)
  with assms show ?thesis by (auto simp: sim_ok_def)
next
  case (succeeds st)
  with assms applyGate_Inr [OF succeeds(1)] show ?thesis by (auto simp: sim_ok_def)
qed










lemma apply_elements_log:
  "apply_elements sim es = (r, sim') \<Longrightarrow>
   (case r of
      Inr u \<Rightarrow> executionLog sim'
               = executionLog sim @ map (\<lambda>e. applied_line (gate e) (targetQubits e)) es
    | Inl err \<Rightarrow> \<exists>k < length es.
               executionLog sim'
               = executionLog sim @ map (\<lambda>e. applied_line (gate e) (targetQubits e)) (take k es)
                 @ [error_line (gate (es ! k)) err])"
proof (induction es arbitrary: sim)
  case Nil
  then show ?case by auto
next
  case (Cons x es)
  show ?case
  proof (cases rule: sim_applyGate_cases [of sim "gate x" "targetQubits x"])
    case (fails e)
    with Cons.prems have "r = Inl e"
      "sim' = sim\<lparr>executionLog := executionLog sim @ [error_line (gate x) e]\<rparr>"
      by simp_all
    then show ?thesis by (auto intro: exI [of _ 0])
  next
    case (succeeds st)
    let ?sim1 = "sim\<lparr>currentState := st, stateHistory := stateHistory sim @ [st],
                     executionLog := executionLog sim @ [applied_line (gate x) (targetQubits x)]\<rparr>"
    from succeeds Cons.prems have rest: "apply_elements ?sim1 es = (r, sim')" by simp
    from Cons.IH [OF rest] show ?thesis
    proof (cases r)
      case (Inr u)
      with Cons.IH [OF rest] show ?thesis by simp
    next
      case (Inl err)
      with Cons.IH [OF rest] obtain k where "k < length es"
        "executionLog sim' = executionLog ?sim1
           @ map (\<lambda>e. applied_line (gate e) (targetQubits e)) (take k es)
           @ [error_line (gate (es ! k)) err]" by auto
      then show ?thesis using Inl by (auto intro!: exI [of _ "Suc k"])
    qed
  qed
qed

lemma apply_elements_states:
  assumes "sim_ok sim" "apply_elements sim es = (Inr u, sim')"
  shows "\<exists>sts. gate_sequence (currentState sim) (map (\<lambda>e. (gate e, targetQubits e)) es) = Inr sts
           \<and> currentState sim' = last (currentState sim # sts)
           \<and> stateHistory sim' = stateHistory sim @ sts
           \<and> sim_ok sim'"
  using assms
proof (induction es arbitrary: sim)
  case Nil
  then show ?case by simp
next
  case (Cons x es)
  show ?case
  proof (cases rule: sim_applyGate_cases [of sim "gate x" "targetQubits x"])
    case (fails e)
    with Cons.prems show ?thesis by simp
  next
    case (succeeds st)
    let ?sim1 = "sim\<lparr>currentState := st, stateHistory := stateHistory sim @ [st],
                     executionLog := executionLog sim @ [applied_line (gate x) (targetQubits x)]\<rparr>"
    from succeeds Cons.prems have rest: "apply_elements ?sim1 es = (Inr u, sim')" by simp
    have ok1: "sim_ok ?sim1"
      using sim_applyGate_ok [OF Cons.prems(1) succeeds(2)] .
    from Cons.IH [OF ok1 rest] obtain sts where
      "gate_sequence st (map (\<lambda>e. (gate e, targetQubits e)) es) = Inr sts"
      "currentState sim' = last (st # sts)"
      "stateHistory sim' = (stateHistory sim @ [st]) @ sts" "sim_ok sim'"
      by auto
    with succeeds(1) show ?thesis
      by (intro exI [of _ "st # sts"]) (simp add: and_then_def)
  qed
qed

lemma collect_clone:
  "list_all is_state sts \<Longrightarrow> collect (map clone sts) = Inr sts"
  by (induction sts) (simp_all add: clone_id)

lemma executeCircuit_Inr:
  assumes "sim_ok sim" "executeCircuit sim circuit = (Inr res, sim')"
  shows "\<exists>sts. gate_sequence (currentState sim)
                  (map (\<lambda>e. (gate e, targetQubits e)) (sort_key position circuit)) = Inr sts
           \<and> finalState res = last (currentState sim # sts)
           \<and> currentState sim' = last (currentState sim # sts)
           \<and> result_stateHistory res = stateHistory sim @ sts
           \<and> stateHistory sim' = stateHistory sim @ sts
           \<and> result_executionLog res
               = executionLog sim
                 @ map (\<lambda>e. applied_line (gate e) (targetQubits e)) (sort_key position circuit)
           \<and> executionLog sim' = result_executionLog res
           \<and> sim_ok sim'"
proof -
  obtain r1 sim1 where ae: "apply_elements sim (sort_key position circuit) = (r1, sim1)"
    by (cases "apply_elements sim (sort_key position circuit)")
  from assms(2) ae obtain u where r1: "r1 = Inr u" and s: "sim' = sim1"
    by (cases r1) (auto simp: executeCircuit_def)
  from apply_elements_states [OF assms(1) ae [unfolded r1]] obtain sts where sts:
    "gate_sequence (currentState sim)
       (map (\<lambda>e. (gate e, targetQubits e)) (sort_key position circuit)) = Inr sts"
    "currentState sim1 = last (currentState sim # sts)"
    "stateHistory sim1 = stateHistory sim @ sts" "sim_ok sim1" by blast
  from apply_elements_log [OF ae] r1 have log: "executionLog sim1
      = executionLog sim
        @ map (\<lambda>e. applied_line (gate e) (targetQubits e)) (sort_key position circuit)"
    by simp
  from sts(4) have c: "clone (currentState sim1) = Inr (currentState sim1)"
    "collect (map clone (stateHistory sim1)) = Inr (stateHistory sim1)"
    by (simp_all add: sim_ok_def clone_id collect_clone)
  from assms(2) ae r1 c have "res = \<lparr>finalState = currentState sim1,
      measurementProbabilities = getMeasurementProbabilities (currentState sim1),
      result_stateHistory = stateHistory sim1, result_executionLog = executionLog sim1\<rparr>"
    by (auto simp: executeCircuit_def and_then_def)
  with sts log s show ?thesis by (intro exI [of _ sts]) simp
qed

lemma ket0_state: "is_state \<lparr>amplitudes = [1, 0], numQubits = 1\<rparr>"
  by (simp add: is_state_def getMeasurementProbabilities_def prob_of_def)

lemma ket1_state: "is_state \<lparr>amplitudes = [0, 1], numQubits = 1\<rparr>"
  by (simp add: is_state_def getMeasurementProbabilities_def prob_of_def)

lemma pauli_z_matrix: "qubits PauliZGate = 1" "matrix PauliZGate = [[1, 0], [0, - 1]]"
  by (simp_all add: PauliZGate_def)

lemma applyGate_Z_ket0:
  "applyGate \<lparr>amplitudes = [1, 0], numQubits = 1\<rparr> PauliZGate [0]
   = Inr \<lparr>amplitudes = [1, 0], numQubits = 1\<rparr>"
  using clone_id [OF ket0_state]
  by (simp add: applyGate_def pauli_z_matrix single_qubit_apply [OF pauli_z_matrix] clone_def)

lemma applyGate_X_ket0:
  "applyGate \<lparr>amplitudes = [1, 0], numQubits = 1\<rparr> PauliXGate [0]
   = Inr \<lparr>amplitudes = [0, 1], numQubits = 1\<rparr>"
  using clone_id [OF ket1_state]
  by (simp add: applyGate_def pauli_x_matrix single_qubit_apply [OF pauli_x_matrix] clone_def)







text \<open>
  Claim C8. \<open>executeCircuit\<close> works through the circuit sorted by position, ascending,
  elements of equal position in their input order (the sorted list is a rearrangement
  of the input that keeps, for every position, the elements of that position in order).
  When it returns, the log has grown by one line per element, in that order; when it
  throws, by the lines of the elements before the one whose \<open>applyGate\<close> threw, and the
  error line of that one.
\<close>

theorem executeCircuit_order:
  assumes "executeCircuit sim circuit = (r, sim')"
  shows "sorted (map position (sort_key position circuit))
       \<and> mset (sort_key position circuit) = mset circuit
       \<and> (\<forall>p. filter (\<lambda>e. position e = p) (sort_key position circuit)
                = filter (\<lambda>e. position e = p) circuit)
       \<and> (case r of
            Inr res \<Rightarrow>
              executionLog sim'
              = executionLog sim
                @ map (\<lambda>e. applied_line (gate e) (targetQubits e)) (sort_key position circuit)
              \<and> result_executionLog res = executionLog sim'
          | Inl err \<Rightarrow>
              \<exists>k \<le> length circuit.
                executionLog sim'
                = executionLog sim
                  @ map (\<lambda>e. applied_line (gate e) (targetQubits e))
                      (take k (sort_key position circuit))
                  @ (if k < length circuit
                     then [error_line (gate (sort_key position circuit ! k)) err] else []))"
proof -
  let ?sorted = "sort_key position circuit"
  obtain r1 sim1 where ae: "apply_elements sim ?sorted = (r1, sim1)"
    by (cases "apply_elements sim ?sorted")
  note log = apply_elements_log [OF ae]
  have s: "sim' = sim1" using assms ae by (cases r1) (auto simp: executeCircuit_def)
  have "case r of
            Inr res \<Rightarrow>
              executionLog sim'
              = executionLog sim @ map (\<lambda>e. applied_line (gate e) (targetQubits e)) ?sorted
              \<and> result_executionLog res = executionLog sim'
          | Inl err \<Rightarrow>
              \<exists>k \<le> length circuit.
                executionLog sim'
                = executionLog sim
                  @ map (\<lambda>e. applied_line (gate e) (targetQubits e)) (take k ?sorted)
                  @ (if k < length circuit then [error_line (gate (?sorted ! k)) err] else [])"
  proof (cases r1)
    case (Inl err)
    with assms ae have r: "r = Inl err" by (simp add: executeCircuit_def)
    from log Inl obtain k where "k < length ?sorted"
      "executionLog sim1 = executionLog sim
         @ map (\<lambda>e. applied_line (gate e) (targetQubits e)) (take k ?sorted)
         @ [error_line (gate (?sorted ! k)) err]" by auto
    then show ?thesis unfolding r s by (auto intro!: exI [of _ k])
  next
    case (Inr u)
    with log have all: "executionLog sim1
        = executionLog sim @ map (\<lambda>e. applied_line (gate e) (targetQubits e)) ?sorted" by simp
    show ?thesis
    proof (cases r)
      case (Inl err)
      with all s show ?thesis by (auto intro!: exI [of _ "length circuit"])
    next
      case res: (Inr res)
      with assms ae Inr have "result_executionLog res = executionLog sim1"
        by (auto simp: executeCircuit_def and_then_def split: sum.splits)
      with all s res show ?thesis by simp
    qed
  qed
  then show ?thesis
    by (simp add: sort_key_stable)
qed

theorem executeCircuit_order_witness:
  "executeCircuit
     \<lparr>sim_numQubits = 1, currentState = \<lparr>amplitudes = [1, 0], numQubits = 1\<rparr>,
      stateHistory = [\<lparr>amplitudes = [1, 0], numQubits = 1\<rparr>],
      executionLog = [init_line 1]\<rparr>
     [\<lparr>gate = PauliXGate, targetQubits = [0], position = 1\<rparr>,
      \<lparr>gate = PauliZGate, targetQubits = [0], position = 0\<rparr>]
   = (Inr \<lparr>finalState = \<lparr>amplitudes = [0, 1], numQubits = 1\<rparr>,
           measurementProbabilities = [0, 1],
           result_stateHistory = [\<lparr>amplitudes = [1, 0], numQubits = 1\<rparr>,
                                  \<lparr>amplitudes = [1, 0], numQubits = 1\<rparr>,
                                  \<lparr>amplitudes = [0, 1], numQubits = 1\<rparr>],
           result_executionLog = [init_line 1, applied_line PauliZGate [0],
                                  applied_line PauliXGate [0]]\<rparr>,
      \<lparr>sim_numQubits = 1, currentState = \<lparr>amplitudes = [0, 1], numQubits = 1\<rparr>,
       stateHistory = [\<lparr>amplitudes = [1, 0], numQubits = 1\<rparr>,
                       \<lparr>amplitudes = [1, 0], numQubits = 1\<rparr>,
                       \<lparr>amplitudes = [0, 1], numQubits = 1\<rparr>],
       executionLog = [init_line 1, applied_line PauliZGate [0],
                       applied_line PauliXGate [0]]\<rparr>)
   \<and> sort_key position
        [\<lparr>gate = PauliXGate, targetQubits = [0], position = 1\<rparr>,
         \<lparr>gate = PauliZGate, targetQubits = [0], position = 0\<rparr>]
     = [\<lparr>gate = PauliZGate, targetQubits = [0], position = 0\<rparr>,
        \<lparr>gate = PauliXGate, targetQubits = [0], position = 1\<rparr>]"
proof -
  let ?k0 = "\<lparr>amplitudes = [1, 0], numQubits = 1\<rparr>"
  let ?k1 = "\<lparr>amplitudes = [0, 1], numQubits = 1\<rparr>"
  let ?sim0 = "\<lparr>sim_numQubits = 1, currentState = ?k0, stateHistory = [?k0],
                executionLog = [init_line 1]\<rparr>"
  let ?circuit = "[\<lparr>gate = PauliXGate, targetQubits = [0], position = 1\<rparr>,
                   \<lparr>gate = PauliZGate, targetQubits = [0], position = 0\<rparr>]"
  let ?log = "[init_line 1, applied_line PauliZGate [0], applied_line PauliXGate [0]]"
  let ?res = "\<lparr>finalState = ?k1, measurementProbabilities = [0, 1],
               result_stateHistory = [?k0, ?k0, ?k1], result_executionLog = ?log\<rparr>"
  let ?sim2 = "\<lparr>sim_numQubits = 1, currentState = ?k1, stateHistory = [?k0, ?k0, ?k1],
                executionLog = ?log\<rparr>"
  have h: "executeCircuit ?sim0 ?circuit = (Inr ?res, ?sim2)"
    by (simp add: executeCircuit_def sim_applyGate_def applyGate_Z_ket0 applyGate_X_ket0
        clone_id [OF ket0_state] clone_id [OF ket1_state] and_then_def
        getMeasurementProbabilities_def prob_of_def)
  show ?thesis
    using h executeCircuit_order [OF h] by simp
qed

text \<open>
  Claim C10. \<open>executeCircuit\<close> starts from the current state of the session, and the
  history and log it returns are those of the session before the call followed by the
  entries of this circuit. Two calls in a row therefore compose: the second starts
  from the final state of the first, and returns the entries of both.
\<close>

theorem executeCircuit_continues_session:
  assumes "sim_ok sim" "executeCircuit sim c1 = (Inr r1, sim1)"
    "executeCircuit sim1 c2 = (Inr r2, sim2)"
  shows "\<exists>sts1 sts2.
      gate_sequence (currentState sim)
        (map (\<lambda>e. (gate e, targetQubits e)) (sort_key position c1)) = Inr sts1
    \<and> gate_sequence (last (currentState sim # sts1))
        (map (\<lambda>e. (gate e, targetQubits e)) (sort_key position c2)) = Inr sts2
    \<and> finalState r1 = last (currentState sim # sts1)
    \<and> result_stateHistory r1 = stateHistory sim @ sts1
    \<and> result_executionLog r1
        = executionLog sim
          @ map (\<lambda>e. applied_line (gate e) (targetQubits e)) (sort_key position c1)
    \<and> finalState r2 = last (currentState sim # sts1 @ sts2)
    \<and> result_stateHistory r2 = stateHistory sim @ sts1 @ sts2
    \<and> result_executionLog r2
        = executionLog sim
          @ map (\<lambda>e. applied_line (gate e) (targetQubits e)) (sort_key position c1)
          @ map (\<lambda>e. applied_line (gate e) (targetQubits e)) (sort_key position c2)"
proof -
  from executeCircuit_Inr [OF assms(1,2)] obtain sts1 where a:
    "gate_sequence (currentState sim)
       (map (\<lambda>e. (gate e, targetQubits e)) (sort_key position c1)) = Inr sts1"
    "finalState r1 = last (currentState sim # sts1)"
    "currentState sim1 = last (currentState sim # sts1)"
    "result_stateHistory r1 = stateHistory sim @ sts1"
    "stateHistory sim1 = stateHistory sim @ sts1"
    "result_executionLog r1
       = executionLog sim
         @ map (\<lambda>e. applied_line (gate e) (targetQubits e)) (sort_key position c1)"
    "executionLog sim1 = result_executionLog r1"
    "sim_ok sim1" by blast
  from executeCircuit_Inr [OF a(8) assms(3)] obtain sts2 where b:
    "gate_sequence (currentState sim1)
       (map (\<lambda>e. (gate e, targetQubits e)) (sort_key position c2)) = Inr sts2"
    "finalState r2 = last (currentState sim1 # sts2)"
    "result_stateHistory r2 = stateHistory sim1 @ sts2"
    "result_executionLog r2
       = executionLog sim1
         @ map (\<lambda>e. applied_line (gate e) (targetQubits e)) (sort_key position c2)"
    by blast
  have l: "last (last (currentState sim # sts1) # sts2) = last (currentState sim # sts1 @ sts2)"
    by (cases sts2) simp_all
  show ?thesis
    using a b l by (intro exI [of _ sts1] exI [of _ sts2]) simp
qed

theorem executeCircuit_continues_session_witness:
  "sim_ok \<lparr>sim_numQubits = 1, currentState = \<lparr>amplitudes = [1, 0], numQubits = 1\<rparr>,
           stateHistory = [\<lparr>amplitudes = [1, 0], numQubits = 1\<rparr>],
           executionLog = [init_line 1]\<rparr>
   \<and> executeCircuit
       \<lparr>sim_numQubits = 1, currentState = \<lparr>amplitudes = [1, 0], numQubits = 1\<rparr>,
        stateHistory = [\<lparr>amplitudes = [1, 0], numQubits = 1\<rparr>],
        executionLog = [init_line 1]\<rparr>
       [\<lparr>gate = PauliXGate, targetQubits = [0], position = 0\<rparr>]
     = (Inr \<lparr>finalState = \<lparr>amplitudes = [0, 1], numQubits = 1\<rparr>,
             measurementProbabilities = [0, 1],
             result_stateHistory = [\<lparr>amplitudes = [1, 0], numQubits = 1\<rparr>,
                                    \<lparr>amplitudes = [0, 1], numQubits = 1\<rparr>],
             result_executionLog = [init_line 1, applied_line PauliXGate [0]]\<rparr>,
        \<lparr>sim_numQubits = 1, currentState = \<lparr>amplitudes = [0, 1], numQubits = 1\<rparr>,
         stateHistory = [\<lparr>amplitudes = [1, 0], numQubits = 1\<rparr>,
                         \<lparr>amplitudes = [0, 1], numQubits = 1\<rparr>],
         executionLog = [init_line 1, applied_line PauliXGate [0]]\<rparr>)
   \<and> executeCircuit
       \<lparr>sim_numQubits = 1, currentState = \<lparr>amplitudes = [0, 1], numQubits = 1\<rparr>,
        stateHistory = [\<lparr>amplitudes = [1, 0], numQubits = 1\<rparr>,
                        \<lparr>amplitudes = [0, 1], numQubits = 1\<rparr>],
        executionLog = [init_line 1, applied_line PauliXGate [0]]\<rparr>
       [\<lparr>gate = PauliXGate, targetQubits = [0], position = 0\<rparr>]
     = (Inr \<lparr>finalState = \<lparr>amplitudes = [1, 0], numQubits = 1\<rparr>,
             measurementProbabilities = [1, 0],
             result_stateHistory = [\<lparr>amplitudes = [1, 0], numQubits = 1\<rparr>,
                                    \<lparr>amplitudes = [0, 1], numQubits = 1\<rparr>,
                                    \<lparr>amplitudes = [1, 0], numQubits = 1\<rparr>],
             result_executionLog = [init_line 1, applied_line PauliXGate [0],
                                    applied_line PauliXGate [0]]\<rparr>,
        \<lparr>sim_numQubits = 1, currentState = \<lparr>amplitudes = [1, 0], numQubits = 1\<rparr>,
         stateHistory = [\<lparr>amplitudes = [1, 0], numQubits = 1\<rparr>,
                         \<lparr>amplitudes = [0, 1], numQubits = 1\<rparr>,
                         \<lparr>amplitudes = [1, 0], numQubits = 1\<rparr>],
         executionLog = [init_line 1, applied_line PauliXGate [0],
                         applied_line PauliXGate [0]]\<rparr>)"
proof -
  let ?k0 = "\<lparr>amplitudes = [1, 0], numQubits = 1\<rparr>"
  let ?k1 = "\<lparr>amplitudes = [0, 1], numQubits = 1\<rparr>"
  let ?x = "[\<lparr>gate = PauliXGate, targetQubits = [0], position = 0\<rparr>]"
  let ?sim0 = "\<lparr>sim_numQubits = 1, currentState = ?k0, stateHistory = [?k0],
                executionLog = [init_line 1]\<rparr>"
  let ?sim1 = "\<lparr>sim_numQubits = 1, currentState = ?k1, stateHistory = [?k0, ?k1],
                executionLog = [init_line 1, applied_line PauliXGate [0]]\<rparr>"
  let ?sim2 = "\<lparr>sim_numQubits = 1, currentState = ?k0, stateHistory = [?k0, ?k1, ?k0],
                executionLog = [init_line 1, applied_line PauliXGate [0],
                                applied_line PauliXGate [0]]\<rparr>"
  let ?r1 = "\<lparr>finalState = ?k1, measurementProbabilities = [0, 1],
              result_stateHistory = [?k0, ?k1],
              result_executionLog = [init_line 1, applied_line PauliXGate [0]]\<rparr>"
  let ?r2 = "\<lparr>finalState = ?k0, measurementProbabilities = [1, 0],
              result_stateHistory = [?k0, ?k1, ?k0],
              result_executionLog = [init_line 1, applied_line PauliXGate [0],
                                     applied_line PauliXGate [0]]\<rparr>"
  have x1: "applyGate ?k1 PauliXGate [0] = Inr ?k0"
    using clone_id [OF ket0_state]
    by (simp add: applyGate_def pauli_x_matrix single_qubit_apply [OF pauli_x_matrix] clone_def)
  have h1: "sim_ok ?sim0" by (simp add: sim_ok_def ket0_state)
  have h2: "executeCircuit ?sim0 ?x = (Inr ?r1, ?sim1)"
    by (simp add: executeCircuit_def sim_applyGate_def applyGate_X_ket0
        clone_id [OF ket0_state] clone_id [OF ket1_state] and_then_def
        getMeasurementProbabilities_def prob_of_def)
  have h3: "executeCircuit ?sim1 ?x = (Inr ?r2, ?sim2)"
    by (simp add: executeCircuit_def sim_applyGate_def x1
        clone_id [OF ket0_state] clone_id [OF ket1_state] and_then_def
        getMeasurementProbabilities_def prob_of_def)
  show ?thesis
    using h1 h2 h3 executeCircuit_continues_session [OF h1 h2 h3] by simp
qed

end
